theory Spec2Isabelle
  imports Complex_Main "HOL-Library.Sublist" "HOL-Library.Multiset"
    "HOL-Library.Product_Lexorder" "HOL-Library.List_Lexorder" "HOL-Library.Char_ord"
begin

section \<open>The sales table\<close>

text \<open>
  A data frame is the list of its rows, in index order; a column is the list of one field
  over the rows. The columns \<open>price\<close>, \<open>discount\<close> and \<open>revenue\<close> hold Python floats:
  they are modelled as exact reals, so comparisons are the ones the code makes and sums
  and means are the exact ones (binary64 rounding is not part of the model). A calendar
  date is the triple (year, month, day) under the lexicographic order, which is how Python
  compares dates. The \<open>month\<close> column, a rendering of the date that no modelled function
  reads, is left out.
\<close>

type_synonym date = "nat \<times> nat \<times> nat"

record sale =
  sale_id :: int
  category :: string
  region :: string
  date :: date
  price :: real
  quantity :: int
  discount :: real
  revenue :: real
  returned :: int
  return_status :: "string option"

text \<open>
  \<open>generate_sales_data\<close>, one iteration of its loop followed by the two derived columns:
  the random draws are the arguments. \<open>revenue\<close> is computed here, once. The column
  \<open>return_status\<close> is \<open>returned\<close> mapped through \<open>{0: 'Not Returned', 1: 'Returned'}\<close>;
  a value outside the dictionary would map to NaN, written \<open>None\<close>.
\<close>

definition return_status_map :: "(int \<times> string) list" where
  "return_status_map = [(0, ''Not Returned''), (1, ''Returned'')]"

definition generate_sale ::
  "nat \<Rightarrow> string \<Rightarrow> string \<Rightarrow> date \<Rightarrow> real \<Rightarrow> int \<Rightarrow> real \<Rightarrow> bool \<Rightarrow> sale" where
  "generate_sale i cat reg d p q disc below =
     (let ret = (if below then 1 else 0) in
      \<lparr>sale_id = int i + 1, category = cat, region = reg, date = d, price = p,
       quantity = q, discount = disc, revenue = p * real_of_int q * (1 - disc),
       returned = ret, return_status = map_of return_status_map ret\<rparr>)"

text \<open>
  The loop of \<open>generate_sales_data\<close> over \<open>range(n)\<close>: the list holds the draws of each
  iteration, in order.
\<close>

type_synonym draws = "string \<times> string \<times> date \<times> real \<times> int \<times> real \<times> bool"

definition generate_sales_data :: "draws list \<Rightarrow> sale list" where
  "generate_sales_data ds =
     map (\<lambda>(i, cat, reg, d, p, q, disc, below). generate_sale i cat reg d p q disc below)
       (enumerate 0 ds)"

text \<open>
  \<open>Series.min\<close> and \<open>Series.max\<close>: NaN (NaT for dates) on an empty column, written
  \<open>None\<close>.
\<close>

definition series_min :: "'a::linorder list \<Rightarrow> 'a option" where
  "series_min xs = (case xs of [] \<Rightarrow> None | x # ys \<Rightarrow> Some (fold min ys x))"

definition series_max :: "'a::linorder list \<Rightarrow> 'a option" where
  "series_max xs = (case xs of [] \<Rightarrow> None | x # ys \<Rightarrow> Some (fold max ys x))"

section \<open>Filtering\<close>

text \<open>
  \<open>apply_filters\<close> reads six values from the sidebar widgets and then filters the frame.
  The widgets are the environment: what they returned is the record \<open>selections\<close>, the
  local variables of the function when it reaches the comment \<open># Apply filters\<close>.
\<close>

record selections =
  selected_category :: string
  selected_region :: string
  date_range :: "date list"
  min_price :: real
  max_price :: real
  selected_return :: string

text \<open>
  What \<open>st.sidebar.date_input\<close> can hand back: one date that is not in a list or tuple, a
  list or tuple of dates (of any length), or an exception. The \<open>try\<close> block turns each
  into the list \<open>date_range\<close>; \<open>min_date\<close> and \<open>max_date\<close> are used by the handler only.
\<close>

datatype date_input = Scalar date | Sequence "date list" | Raised

fun normalize_date_range :: "date \<Rightarrow> date \<Rightarrow> date_input \<Rightarrow> date list" where
  "normalize_date_range min_date max_date (Sequence ds) =
     (if length ds = 1 then [ds ! 0, ds ! 0] else ds)"
| "normalize_date_range min_date max_date (Scalar d) = [d, d]"
| "normalize_date_range min_date max_date Raised = [min_date, max_date]"

text \<open>The filtering part of \<open>apply_filters\<close>, one \<open>let\<close> for each reassignment of \<open>filtered_df\<close>.\<close>

definition apply_filters :: "sale list \<Rightarrow> selections \<Rightarrow> sale list" where
  "apply_filters df s =
     (let filtered_df = df;
          filtered_df =
            (if selected_category s \<noteq> ''All''
             then filter (\<lambda>r. category r = selected_category s) filtered_df
             else filtered_df);
          filtered_df =
            (if selected_region s \<noteq> ''All''
             then filter (\<lambda>r. region r = selected_region s) filtered_df
             else filtered_df);
          filtered_df =
            (if length (date_range s) \<ge> 2
             then filter (\<lambda>r. date r \<ge> date_range s ! 0 \<and> date r \<le> date_range s ! 1) filtered_df
             else if length (date_range s) = 1
             then filter (\<lambda>r. date r = date_range s ! 0) filtered_df
             else filtered_df);
          filtered_df =
            filter (\<lambda>r. price r \<ge> min_price s \<and> price r \<le> max_price s) filtered_df;
          filtered_df =
            (if selected_return s \<noteq> ''All''
             then filter (\<lambda>r. return_status r = Some (selected_return s)) filtered_df
             else filtered_df)
      in filtered_df)"

text \<open>
  The initial state of the widgets: each select box shows its first option \<open>'All'\<close>, the
  date input shows \<open>[min_date, max_date]\<close> and the slider the least and greatest price of
  the frame. There are no such bounds on an empty frame.
\<close>

definition default_selections :: "sale list \<Rightarrow> selections option" where
  "default_selections df =
     (case (series_min (map date df), series_max (map date df),
            series_min (map price df), series_max (map price df)) of
        (Some min_date, Some max_date, Some lo, Some hi) \<Rightarrow>
          Some \<lparr>selected_category = ''All'', selected_region = ''All'',
                date_range = [min_date, max_date], min_price = lo, max_price = hi,
                selected_return = ''All''\<rparr>
      | _ \<Rightarrow> None)"

text \<open>
  The test that the chain of row selections above makes on one row, for any selections,
  also a date range that is not a pair.
\<close>

definition row_passes :: "selections \<Rightarrow> sale \<Rightarrow> bool" where
  "row_passes s r \<longleftrightarrow>
     (selected_category s = ''All'' \<or> category r = selected_category s) \<and>
     (selected_region s = ''All'' \<or> region r = selected_region s) \<and>
     (if length (date_range s) \<ge> 2
      then date_range s ! 0 \<le> date r \<and> date r \<le> date_range s ! 1
      else if length (date_range s) = 1 then date r = date_range s ! 0 else True) \<and>
     (min_price s \<le> price r \<and> price r \<le> max_price s) \<and>
     (selected_return s = ''All'' \<or> return_status r = Some (selected_return s))"

subsection \<open>The constraint set of the specification\<close>

text \<open>
  A constraint set is well formed when its date range is a pair with lower bound at most
  the upper bound, its price range likewise, and its return selector one of the three
  options offered. The category and region selectors are \<open>'All'\<close> or one value.
\<close>

definition return_options :: "string list" where
  "return_options = [''All'', ''Returned'', ''Not Returned'']"

definition well_formed :: "selections \<Rightarrow> bool" where
  "well_formed s \<longleftrightarrow>
     length (date_range s) = 2 \<and> date_range s ! 0 \<le> date_range s ! 1 \<and>
     min_price s \<le> max_price s \<and> selected_return s \<in> set return_options"

text \<open>The active predicates of a well-formed constraint set, as the specification lists them.\<close>

definition satisfies :: "selections \<Rightarrow> sale \<Rightarrow> bool" where
  "satisfies s r \<longleftrightarrow>
     (selected_category s = ''All'' \<or> category r = selected_category s) \<and>
     (selected_region s = ''All'' \<or> region r = selected_region s) \<and>
     (date_range s ! 0 \<le> date r \<and> date r \<le> date_range s ! 1) \<and>
     (min_price s \<le> price r \<and> price r \<le> max_price s) \<and>
     (selected_return s = ''All'' \<or> return_status r = Some (selected_return s))"

section \<open>Key performance indicators\<close>

text \<open>
  \<open>Series.mean\<close> is NaN on an empty column, and dividing a numpy number by zero gives NaN
  or an infinity: both are \<open>None\<close> here, so that a bundle with an undefined entry is
  different from every bundle of defined numbers.
\<close>

definition series_mean :: "real list \<Rightarrow> real option" where
  "series_mean xs = (if xs = [] then None else Some (sum_list xs / real (length xs)))"

definition np_divide :: "real \<Rightarrow> real \<Rightarrow> real option" where
  "np_divide a b = (if b = 0 then None else Some (a / b))"

record kpis =
  total_sales :: int
  total_revenue :: real
  avg_order_value :: "real option"
  return_rate :: "real option"
  avg_discount :: "real option"
  total_quantity :: int

definition calculate_kpis :: "sale list \<Rightarrow> kpis" where
  "calculate_kpis df =
     (if length df = 0
      then \<lparr>total_sales = 0, total_revenue = 0, avg_order_value = Some 0,
            return_rate = Some 0, avg_discount = Some 0, total_quantity = 0\<rparr>
      else \<lparr>total_sales = int (length df),
            total_revenue = sum_list (map revenue df),
            avg_order_value = series_mean (map revenue df),
            return_rate =
              map_option (\<lambda>x. x * 100)
                (np_divide (real_of_int (sum_list (map returned df))) (real (length df))),
            avg_discount = map_option (\<lambda>x. x * 100) (series_mean (map discount df)),
            total_quantity = sum_list (map quantity df)\<rparr>)"

section \<open>Grouped roll-ups\<close>

text \<open>
  \<open>df.groupby(key)[col].sum()\<close>: one entry for each distinct key, the keys in ascending
  order, each with the sum of the column over the rows of that key.
\<close>

definition groupby_sum :: "(sale \<Rightarrow> 'k::linorder) \<Rightarrow> (sale \<Rightarrow> 'v::comm_monoid_add) \<Rightarrow> sale list \<Rightarrow> ('k \<times> 'v) list" where
  "groupby_sum key col df =
     map (\<lambda>k. (k, sum_list (map col (filter (\<lambda>r. key r = k) df))))
       (sort (remdups (map key df)))"



definition sunburst_data :: "sale list \<Rightarrow> ((string \<times> string) \<times> real) list" where
  "sunburst_data df = groupby_sum (\<lambda>r. (region r, category r)) revenue df"

text \<open>Revenue by region alone: the same \<open>groupby\<close>, keyed by the \<open>region\<close> column.\<close>

definition rev_by_region :: "sale list \<Rightarrow> (string \<times> real) list" where
  "rev_by_region df = groupby_sum region revenue df"

section \<open>The three-record scenario\<close>

definition scenario :: "sale list" where
  "scenario =
     generate_sales_data
       [(''Electronics'', ''North'', (2024, 1, 5), 100, 2, 0.1, False),
        (''Clothing'', ''South'', (2024, 1, 10), 50, 1, 0.0, True),
        (''Electronics'', ''East'', (2024, 2, 1), 200, 1, 0.2, False)]"

definition all_selected :: "date \<Rightarrow> date \<Rightarrow> real \<Rightarrow> real \<Rightarrow> selections" where
  "all_selected d0 d1 lo hi =
     \<lparr>selected_category = ''All'', selected_region = ''All'', date_range = [d0, d1],
      min_price = lo, max_price = hi, selected_return = ''All''\<rparr>"

definition electronics_only :: selections where
  "electronics_only = (all_selected (2024, 1, 1) (2024, 6, 28) 0 500)\<lparr>selected_category := ''Electronics''\<rparr>"

text \<open>Bounds that sit exactly on the first and third record, and a narrow range to widen.\<close>

definition boundary_selection :: selections where
  "boundary_selection =
     (all_selected (2024, 1, 5) (2024, 2, 1) 100 200)\<lparr>selected_return := ''Not Returned''\<rparr>"

definition narrow_selection :: selections where
  "narrow_selection = all_selected (2024, 1, 6) (2024, 1, 31) 60 150"

section \<open>Properties of filtering\<close>

lemmas scenario_defs =
  scenario_def generate_sales_data_def generate_sale_def return_status_map_def

lemma apply_filters_filter: "apply_filters df s = filter (row_passes s) df"
  unfolding apply_filters_def Let_def row_passes_def
  by (auto intro: filter_cong)

lemma row_passes_well_formed: "well_formed s \<Longrightarrow> row_passes s = satisfies s"
  by (auto simp: well_formed_def row_passes_def satisfies_def fun_eq_iff)

lemma length_filter_mono:
  "(\<And>x. x \<in> set xs \<Longrightarrow> P x \<Longrightarrow> Q x) \<Longrightarrow> length (filter P xs) \<le> length (filter Q xs)"
  by (induction xs) auto

lemma scenario_rows:
  "scenario =
     [\<lparr>sale_id = 1, category = ''Electronics'', region = ''North'', date = (2024, 1, 5),
       price = 100, quantity = 2, discount = 1 / 10, revenue = 180, returned = 0,
       return_status = Some ''Not Returned''\<rparr>,
      \<lparr>sale_id = 2, category = ''Clothing'', region = ''South'', date = (2024, 1, 10),
       price = 50, quantity = 1, discount = 0, revenue = 50, returned = 1,
       return_status = Some ''Returned''\<rparr>,
      \<lparr>sale_id = 3, category = ''Electronics'', region = ''East'', date = (2024, 2, 1),
       price = 200, quantity = 1, discount = 1 / 5, revenue = 160, returned = 0,
       return_status = Some ''Not Returned''\<rparr>]"
  by (simp add: scenario_defs)

lemma generate_sale_flag:
  "returned (generate_sale i cat reg d p q disc below) = 0 \<or>
   returned (generate_sale i cat reg d p q disc below) = 1"
  by (simp add: generate_sale_def)

lemma generate_sale_status:
  "return_status (generate_sale i cat reg d p q disc below) = Some ''Returned''
     \<longleftrightarrow> returned (generate_sale i cat reg d p q disc below) = 1"
  by (simp add: generate_sale_def return_status_map_def)

text \<open>
  C1: for every record sequence and every well-formed constraint set, the filtered frame
  is a subsequence of the frame in the original order; it holds exactly the rows that
  satisfy every active predicate (category, region, inclusive date bounds, inclusive price
  bounds compared with no tolerance, return status), and a row that fails one is left out.
\<close>

theorem apply_filters_sound:
  assumes "well_formed s"
  shows "apply_filters df s = filter (satisfies s) df \<and>
         subseq (apply_filters df s) df \<and>
         (\<forall>r \<in> set (apply_filters df s). satisfies s r) \<and>
         (\<forall>r \<in> set df. \<not> satisfies s r \<longrightarrow> r \<notin> set (apply_filters df s))"
  using assms by (simp add: apply_filters_filter row_passes_well_formed)

theorem apply_filters_sound_witness:
  "well_formed boundary_selection \<and>
   apply_filters scenario boundary_selection = [scenario ! 0, scenario ! 2] \<and>
   subseq (apply_filters scenario boundary_selection) scenario \<and>
   satisfies boundary_selection (scenario ! 0) \<and>
   \<not> satisfies boundary_selection (scenario ! 1) \<and>
   satisfies boundary_selection (scenario ! 2)"
proof -
  have wf: "well_formed boundary_selection"
    by (simp add: well_formed_def return_options_def scenario_defs all_selected_def boundary_selection_def)
  have rows: "filter (satisfies boundary_selection) scenario = [scenario ! 0, scenario ! 2]"
    by (simp add: satisfies_def scenario_defs all_selected_def boundary_selection_def)
  have sat: "satisfies boundary_selection (scenario ! 0)"
    "\<not> satisfies boundary_selection (scenario ! 1)"
    "satisfies boundary_selection (scenario ! 2)"
    by (simp_all add: satisfies_def scenario_defs all_selected_def boundary_selection_def)
  from apply_filters_sound [OF wf, of scenario]
  have eq: "apply_filters scenario boundary_selection
              = filter (satisfies boundary_selection) scenario"
    and sub: "subseq (apply_filters scenario boundary_selection) scenario"
    by blast+
  from eq rows have "apply_filters scenario boundary_selection = [scenario ! 0, scenario ! 2]"
    by simp
  with wf sub sat show ?thesis
    by blast
qed

text \<open>
  C4: with every selector on \<open>'All'\<close> and a price range that covers every row, a date range
  whose two bounds are the same date \<open>D\<close> keeps exactly the rows dated \<open>D\<close>, in order.
\<close>

theorem degenerate_date_range:
  "\<forall>r \<in> set df. lo \<le> price r \<and> price r \<le> hi \<Longrightarrow>
   apply_filters df (all_selected D D lo hi) = filter (\<lambda>r. date r = D) df"
  by (auto simp: apply_filters_filter row_passes_def all_selected_def intro!: filter_cong)

theorem degenerate_date_range_witness:
  "map price scenario = [100, 50, 200] \<and>
   map date scenario = [(2024, 1, 5), (2024, 1, 10), (2024, 2, 1)] \<and>
   apply_filters scenario (all_selected (2024, 1, 10) (2024, 1, 10) 0 500) = [scenario ! 1]"
proof -
  have cols: "map price scenario = [100, 50, 200]"
    "map date scenario = [(2024, 1, 5), (2024, 1, 10), (2024, 2, 1)]"
    by (simp_all add: scenario_defs all_selected_def)
  have cover: "\<forall>r \<in> set scenario. 0 \<le> price r \<and> price r \<le> 500"
    by (simp add: scenario_defs all_selected_def)
  have "filter (\<lambda>r. date r = (2024, 1, 10)) scenario = [scenario ! 1]"
    by (simp add: scenario_defs all_selected_def)
  with degenerate_date_range [OF cover, of "(2024, 1, 10)"] cols show ?thesis
    by simp
qed

text \<open>
  C5: a date input that holds one bound \<open>D\<close>, as a one-element sequence or as a bare date,
  becomes the range \<open>[D, D]\<close>; filtering with it gives what the degenerate range \<open>[D, D]\<close>
  gives, and that is the rows dated \<open>D\<close> among those the other filters keep, so the date
  filter is applied.
\<close>

theorem single_bound_normalized:
  "normalize_date_range min_date max_date (Sequence [D]) = [D, D] \<and>
   normalize_date_range min_date max_date (Scalar D) = [D, D] \<and>
   apply_filters df (s\<lparr>date_range := normalize_date_range min_date max_date (Sequence [D])\<rparr>)
     = apply_filters df (s\<lparr>date_range := [D, D]\<rparr>) \<and>
   apply_filters df (s\<lparr>date_range := normalize_date_range min_date max_date (Scalar D)\<rparr>)
     = apply_filters df (s\<lparr>date_range := [D, D]\<rparr>) \<and>
   apply_filters df (s\<lparr>date_range := [D, D]\<rparr>)
     = filter (\<lambda>r. date r = D) (apply_filters df (s\<lparr>date_range := []\<rparr>))"
  by (auto simp: apply_filters_filter row_passes_def intro!: filter_cong)

theorem single_bound_normalized_witness:
  "apply_filters scenario
     (electronics_only\<lparr>date_range :=
        normalize_date_range (2024, 1, 5) (2024, 2, 1) (Sequence [(2024, 2, 1)])\<rparr>)
     = [scenario ! 2] \<and>
   apply_filters scenario
     (electronics_only\<lparr>date_range :=
        normalize_date_range (2024, 1, 5) (2024, 2, 1) (Scalar (2024, 2, 1))\<rparr>)
     = [scenario ! 2]"
proof -
  have "apply_filters scenario (electronics_only\<lparr>date_range := [(2024, 2, 1), (2024, 2, 1)]\<rparr>)
          = [scenario ! 2]"
    by (simp add: apply_filters_def scenario_defs all_selected_def electronics_only_def)
  with single_bound_normalized
         [of "(2024, 1, 5)" "(2024, 2, 1)" "(2024, 2, 1)" scenario electronics_only]
  show ?thesis by simp
qed

text \<open>
  C6: widening the date range alone, or the price range alone (lower bound no higher,
  upper bound no lower, everything else unchanged), never shortens the filtered frame.
\<close>

theorem widening_monotone:
  "(date_range s = [lo, hi] \<and> lo' \<le> lo \<and> hi \<le> hi' \<longrightarrow>
      length (apply_filters df s) \<le> length (apply_filters df (s\<lparr>date_range := [lo', hi']\<rparr>))) \<and>
   (plo' \<le> min_price s \<and> max_price s \<le> phi' \<longrightarrow>
      length (apply_filters df s)
        \<le> length (apply_filters df (s\<lparr>min_price := plo', max_price := phi'\<rparr>)))"
  unfolding apply_filters_filter
  by (intro conjI impI length_filter_mono) (auto simp: row_passes_def)

theorem widening_monotone_witness:
  "date_range narrow_selection = [(2024, 1, 6), (2024, 1, 31)] \<and>
   ((2024, 1, 1) :: date) \<le> (2024, 1, 6) \<and> ((2024, 1, 31) :: date) \<le> (2024, 3, 1) \<and>
   0 \<le> min_price narrow_selection \<and> max_price narrow_selection \<le> 500 \<and>
   length (apply_filters scenario narrow_selection) = 0 \<and>
   length (apply_filters scenario
     (narrow_selection\<lparr>date_range := [(2024, 1, 1), (2024, 3, 1)]\<rparr>)) = 1 \<and>
   length (apply_filters scenario (narrow_selection\<lparr>min_price := 0, max_price := 500\<rparr>)) = 1 \<and>
   length (apply_filters scenario narrow_selection)
     \<le> length (apply_filters scenario
          (narrow_selection\<lparr>date_range := [(2024, 1, 1), (2024, 3, 1)]\<rparr>)) \<and>
   length (apply_filters scenario narrow_selection)
     \<le> length (apply_filters scenario (narrow_selection\<lparr>min_price := 0, max_price := 500\<rparr>))"
proof -
  have hyp: "date_range narrow_selection = [(2024, 1, 6), (2024, 1, 31)]"
    "((2024, 1, 1) :: date) \<le> (2024, 1, 6)" "((2024, 1, 31) :: date) \<le> (2024, 3, 1)"
    "0 \<le> min_price narrow_selection" "max_price narrow_selection \<le> 500"
    by (simp_all add: scenario_defs all_selected_def narrow_selection_def)
  have len: "length (apply_filters scenario narrow_selection) = 0"
    "length (apply_filters scenario
       (narrow_selection\<lparr>date_range := [(2024, 1, 1), (2024, 3, 1)]\<rparr>)) = 1"
    "length (apply_filters scenario (narrow_selection\<lparr>min_price := 0, max_price := 500\<rparr>)) = 1"
    by (simp_all add: apply_filters_def scenario_defs all_selected_def narrow_selection_def)
  from widening_monotone
         [of narrow_selection "(2024, 1, 6)" "(2024, 1, 31)" "(2024, 1, 1)" "(2024, 3, 1)"
             scenario 0 500]
       hyp len
  show ?thesis by simp
qed

text \<open>
  C7: filtering is idempotent: filtering the filtered frame again with the same constraint
  set changes nothing. This holds for every constraint set, well formed or not.
\<close>

theorem apply_filters_idempotent:
  "apply_filters (apply_filters df s) s = apply_filters df s"
  by (simp add: apply_filters_filter)

theorem apply_filters_idempotent_witness:
  "apply_filters (apply_filters scenario electronics_only) electronics_only
     = [scenario ! 0, scenario ! 2]"
proof -
  have "apply_filters scenario electronics_only = [scenario ! 0, scenario ! 2]"
    by (simp add: apply_filters_def scenario_defs all_selected_def electronics_only_def)
  with apply_filters_idempotent [of scenario electronics_only] show ?thesis
    by simp
qed

lemma series_min_le: "series_min xs = Some m \<Longrightarrow> x \<in> set xs \<Longrightarrow> m \<le> x"
  by (cases xs) (auto simp: series_min_def Min.set_eq_fold [symmetric] simp del: set_simps)

lemma series_max_ge: "series_max xs = Some m \<Longrightarrow> x \<in> set xs \<Longrightarrow> x \<le> m"
  by (cases xs) (auto simp: series_max_def Max.set_eq_fold [symmetric] simp del: set_simps)

text \<open>
  C10: on a non-empty frame the fully permissive constraint set (every selector \<open>'All'\<close>,
  the date range from the least to the greatest date of the frame, the price range from
  the least to the greatest price) exists, it is the initial state of the widgets, and
  filtering with it returns the frame unchanged.
\<close>

theorem default_selections_identity:
  assumes "df \<noteq> []"
  shows "\<exists>d0 d1 lo hi.
     series_min (map date df) = Some d0 \<and> series_max (map date df) = Some d1 \<and>
     series_min (map price df) = Some lo \<and> series_max (map price df) = Some hi \<and>
     default_selections df = Some (all_selected d0 d1 lo hi) \<and>
     apply_filters df (all_selected d0 d1 lo hi) = df"
proof -
  from assms obtain d0 d1 lo hi where
    b: "series_min (map date df) = Some d0" "series_max (map date df) = Some d1"
       "series_min (map price df) = Some lo" "series_max (map price df) = Some hi"
    by (cases df) (auto simp: series_min_def series_max_def)
  have "row_passes (all_selected d0 d1 lo hi) r" if "r \<in> set df" for r
    using that series_min_le [OF b(1), of "date r"] series_max_ge [OF b(2), of "date r"]
      series_min_le [OF b(3), of "price r"] series_max_ge [OF b(4), of "price r"]
    by (simp add: row_passes_def all_selected_def)
  then have "apply_filters df (all_selected d0 d1 lo hi) = df"
    by (simp add: apply_filters_filter)
  moreover have "default_selections df = Some (all_selected d0 d1 lo hi)"
    using b by (simp add: default_selections_def all_selected_def)
  ultimately show ?thesis using b by blast
qed

theorem default_selections_identity_witness:
  "scenario \<noteq> [] \<and>
   default_selections scenario = Some (all_selected (2024, 1, 5) (2024, 2, 1) 50 200) \<and>
   apply_filters scenario (all_selected (2024, 1, 5) (2024, 2, 1) 50 200) = scenario"
proof -
  have ne: "scenario \<noteq> []"
    by (simp add: scenario_defs all_selected_def)
  have bounds: "series_min (map date scenario) = Some (2024, 1, 5)"
    "series_max (map date scenario) = Some (2024, 2, 1)"
    "series_min (map price scenario) = Some 50"
    "series_max (map price scenario) = Some 200"
    by (simp_all add: series_min_def series_max_def scenario_defs all_selected_def)
  from default_selections_identity [OF ne] bounds ne show ?thesis
    by auto
qed

section \<open>Properties of the indicators\<close>


lemma calculate_kpis_defined:
  "avg_order_value (calculate_kpis df) \<noteq> None \<and> return_rate (calculate_kpis df) \<noteq> None \<and>
   avg_discount (calculate_kpis df) \<noteq> None"
  by (simp add: calculate_kpis_def series_mean_def np_divide_def)

text \<open>
  C2: on the empty frame \<open>calculate_kpis\<close> returns the bundle whose six entries are zero;
  each entry is a defined number (none is NaN) and nothing is raised.
\<close>

theorem calculate_kpis_empty:
  "calculate_kpis [] =
     \<lparr>total_sales = 0, total_revenue = 0, avg_order_value = Some 0,
      return_rate = Some 0, avg_discount = Some 0, total_quantity = 0\<rparr>"
  by (simp add: calculate_kpis_def)



section \<open>Properties of the roll-ups\<close>





lemma keys_groupby_sum: "set (map fst (groupby_sum key col df)) = key ` set df"
  by (simp add: groupby_sum_def comp_def)

text \<open>
  C8, as the code has it: grouping the three-record scenario by region with the sum of
  revenue gives North 180, South 50 and East 160, each region once; South is
  \<open>50 * 1 * (1 - 0.0) = 50\<close>. The roll-up by region and category of the sunburst chart
  has the same three sums.
\<close>

theorem scenario_rev_by_region:
  "set (rev_by_region scenario) = {(''North'', 180), (''South'', 50), (''East'', 160)} \<and>
   distinct (map fst (rev_by_region scenario)) \<and>
   sunburst_data scenario =
     [((''East'', ''Electronics''), 160), ((''North'', ''Electronics''), 180),
      ((''South'', ''Clothing''), 50)]"
  by (simp add: rev_by_region_def sunburst_data_def groupby_sum_def scenario_defs insert_commute)

text \<open>C8, as the specification states it, fails: the sum for South is 50 and not 45.\<close>

theorem scenario_rev_by_region_counterexample:
  "map_of (rev_by_region scenario) ''South'' = Some 50 \<and>
   map_of (rev_by_region scenario) ''South'' \<noteq> Some 45 \<and>
   revenue (scenario ! 1) = 50"
  by (simp add: rev_by_region_def groupby_sum_def scenario_defs)



end
